theory Spec2Isabelle
  imports Main
begin

section \<open>Screenshot Ninja: a shallow embedding of the plugin\<close>

text \<open>
  The plugin is a sequence of calls into the host application and its widget toolkit.
  The embedding makes that explicit: what the host and the toolkit answer is read from
  an environment record, what the plugin asks of them is appended to a trace of
  events, and a Python exception that nothing catches is the left summand of the
  result. Python integers are \<open>int\<close>, Python \<open>str\<close> and \<open>bytes\<close> are lists of
  \<open>char\<close> (one \<open>char\<close> per byte, or per code point below 256).
\<close>

subsection \<open>Toolkit geometry\<close>

text \<open>
  The toolkit stores a rectangle as its two corners; \<open>width\<close> and \<open>height\<close> are derived
  from them, and \<open>setWidth\<close>, \<open>setHeight\<close> move the second corner. Coordinates are taken as
  the Python integers the binding hands to the plugin.
\<close>

record QRect =
  rect_x1 :: int
  rect_y1 :: int
  rect_x2 :: int
  rect_y2 :: int

record QSize =
  size_wd :: int
  size_ht :: int

definition QRect_width :: "QRect \<Rightarrow> int" where
  "QRect_width r = rect_x2 r - rect_x1 r + 1"

definition QRect_height :: "QRect \<Rightarrow> int" where
  "QRect_height r = rect_y2 r - rect_y1 r + 1"

definition QRect_setWidth :: "int \<Rightarrow> QRect \<Rightarrow> QRect" where
  "QRect_setWidth w r = r\<lparr>rect_x2 := rect_x1 r + w - 1\<rparr>"

definition QRect_setHeight :: "int \<Rightarrow> QRect \<Rightarrow> QRect" where
  "QRect_setHeight h r = r\<lparr>rect_y2 := rect_y1 r + h - 1\<rparr>"

definition QRect_size :: "QRect \<Rightarrow> QSize" where
  "QRect_size r = \<lparr>size_wd = QRect_width r, size_ht = QRect_height r\<rparr>"

subsection \<open>Helpers\<close>

text \<open>Python's \<open>int(x)\<close> applied to a value that already is an \<open>int\<close>.\<close>

definition py_int :: "int \<Rightarrow> int" where
  "py_int i = i"

text \<open>
  \<open>scaled_size(r, scale)\<close>: copy \<open>r\<close>, set the copy's width and height to the scaled
  width and height of \<open>r\<close>, return the copy's size.
\<close>

definition scaled_size :: "QRect \<Rightarrow> int \<Rightarrow> QSize" where
  "scaled_size r scale =
     (let s = r;
          s = QRect_setWidth (py_int (QRect_width r * scale)) s;
          s = QRect_setHeight (py_int (QRect_height r * scale)) s
      in QRect_size s)"

subsection \<open>Strings\<close>

text \<open>
  \<open>str(n)\<close> for a Python integer: decimal digits, most significant first, with a
  leading minus sign for a negative number.
\<close>

definition digit_char :: "nat \<Rightarrow> char" where
  "digit_char d = ''0123456789'' ! d"

function str_nat :: "nat \<Rightarrow> string" where
  "str_nat n = (if n < 10 then [digit_char n] else str_nat (n div 10) @ [digit_char (n mod 10)])"
  by pat_completeness auto
termination
  by (relation "measure (\<lambda>n. n)") auto

definition str_int :: "int \<Rightarrow> string" where
  "str_int i = (if i < 0 then CHR ''-'' # str_nat (nat (- i)) else str_nat (nat i))"

text \<open>
  \<open>b.decode("ascii")\<close>: every byte below 128 is the character of that code; any other
  byte raises \<open>UnicodeDecodeError\<close>.
\<close>

datatype py_error = AttributeError | UnicodeDecodeError

type_synonym bytes = "char list"

definition is_ascii :: "bytes \<Rightarrow> bool" where
  "is_ascii bs = list_all (\<lambda>b. (of_char b :: nat) < 128) bs"

definition decode_ascii :: "bytes \<Rightarrow> py_error + string" where
  "decode_ascii bs = (if is_ascii bs then Inr bs else Inl UnicodeDecodeError)"

subsection \<open>The host, the toolkit and the trace of calls\<close>

record widget =
  widget_name :: string
  widget_rect :: QRect

datatype ViewFrame = ViewFrame (getCurrentWidget: "widget option")

datatype DockHandler = DockHandler (getViewFrame: "ViewFrame option")

datatype MessageBoxButtonSet = OKButtonSet

datatype MessageBoxIcon = ErrorIcon

text \<open>
  What the host and the toolkit answer during one command:
  \<^item> \<open>activeWindow\<close>: \<open>QApplication.activeWindow()\<close>, \<open>None\<close> when there is none;
  \<^item> \<open>getActiveDockHandler\<close>: \<open>DockHandler.getActiveDockHandler()\<close>; the handler, its
    view frame and the frame's current widget may each be \<open>None\<close>;
  \<^item> \<open>get_int_input\<close>: the number entered at the multiplier prompt, \<open>None\<close> on cancel;
  \<^item> \<open>get_save_filename_input\<close>: the path chosen in the save dialog as bytes, \<open>None\<close>
    on cancel;
  \<^item> \<open>pixmap_save\<close>: what \<open>img.save\<close> returns, \<open>True\<close> when the file was written;
  \<^item> \<open>unix_time\<close>: \<open>int(time.time())\<close>, the clock in whole seconds.
\<close>

record env =
  activeWindow :: "widget option"
  getActiveDockHandler :: "DockHandler option"
  get_int_input :: "int option"
  get_save_filename_input :: "bytes option"
  pixmap_save :: bool
  unix_time :: int

text \<open>
  The calls the plugin makes, in order:
  \<^item> \<open>QPixmapNew sz\<close>: \<open>QPixmap(sz)\<close>;
  \<^item> \<open>SetDevicePixelRatio k\<close>: \<open>img.setDevicePixelRatio(k)\<close>;
  \<^item> \<open>Render w p r\<close>: \<open>w.render(img, p, QRegion(r))\<close>, \<open>p\<close> the target offset;
  \<^item> \<open>AskSaveFilename title ext default\<close>: \<open>get_save_filename_input(title, ext, default)\<close>;
  \<^item> \<open>AskInt prompt title\<close>: \<open>get_int_input(prompt, title)\<close>;
  \<^item> \<open>PixmapSave f\<close>: \<open>img.save(f)\<close>, with no format argument;
  \<^item> \<open>Print s\<close>: \<open>print(s)\<close>;
  \<^item> \<open>ShowMessageBox title text buttons icon\<close>: \<open>show_message_box(...)\<close>.
\<close>

datatype event =
    QPixmapNew QSize
  | SetDevicePixelRatio int
  | Render widget "int \<times> int" QRect
  | AskSaveFilename string string string
  | AskInt string string
  | PixmapSave string
  | Print string
  | ShowMessageBox string string MessageBoxButtonSet MessageBoxIcon

type_synonym outcome = "event list \<times> (py_error + unit)"

text \<open>A call made before running the rest: its event comes first in the trace.\<close>

definition after :: "event \<Rightarrow> outcome \<Rightarrow> outcome" where
  "after e out = (e # fst out, snd out)"

definition QPoint0 :: "int \<times> int" where
  "QPoint0 = (0, 0)"

subsection \<open>\<open>save_widget_image\<close>\<close>

text \<open>
  Render the widget into a pixmap of the scaled size, ask for the output path, return
  if the dialog was cancelled, otherwise decode the path and save; report success on
  the console and failure in a message box. \<open>decode\<close> runs before \<open>save\<close> is called,
  so a path that does not decode ends the function with the exception.
\<close>

definition save_widget_image :: "widget \<Rightarrow> int \<Rightarrow> env \<Rightarrow> outcome" where
  "save_widget_image w scale env =
     (let r = widget_rect w;
          rendered = [QPixmapNew (scaled_size r scale), SetDevicePixelRatio scale,
                      Render w QPoint0 r];
          default_filename = ''binaryninja-'' @ str_int (unix_time env) @ ''.png'';
          asked = rendered @ [AskSaveFilename ''Save Screenshot'' ''png'' default_filename]
      in case get_save_filename_input env of
           None \<Rightarrow> (asked, Inr ())
         | Some save_path \<Rightarrow>
             (case decode_ascii save_path of
                Inl e \<Rightarrow> (asked, Inl e)
              | Inr f \<Rightarrow>
                  if pixmap_save env
                  then (asked @ [PixmapSave f,
                                 Print (''Screenshot saved to '' @ f @ '' successfully.'')],
                        Inr ())
                  else (asked @ [PixmapSave f,
                                 ShowMessageBox ''Error'' ''Failed to save screenshot.''
                                   OKButtonSet ErrorIcon],
                        Inr ())))"

subsection \<open>Command implementations\<close>

definition save_active_window_image :: "int \<Rightarrow> env \<Rightarrow> outcome" where
  "save_active_window_image scale env =
     (case activeWindow env of
        Some main_window \<Rightarrow> save_widget_image main_window scale env
      | None \<Rightarrow>
          ([ShowMessageBox ''Error'' ''Couldn't find main window.'' OKButtonSet ErrorIcon],
           Inr ()))"

text \<open>
  The view command checks none of the three lookups. A method called on \<open>None\<close>
  raises \<open>AttributeError\<close>: \<open>dh.getViewFrame()\<close>, \<open>vf.getCurrentWidget()\<close>, and
  \<open>w.rect()\<close>, the first statement of \<open>save_widget_image\<close>, when the widget is \<open>None\<close>.
\<close>

definition save_active_view_image :: "int \<Rightarrow> env \<Rightarrow> outcome" where
  "save_active_view_image scale env =
     (case getActiveDockHandler env of
        None \<Rightarrow> ([], Inl AttributeError)
      | Some dh \<Rightarrow>
          (case getViewFrame dh of
             None \<Rightarrow> ([], Inl AttributeError)
           | Some vf \<Rightarrow>
               (case getCurrentWidget vf of
                  None \<Rightarrow> ([], Inl AttributeError)
                | Some vf_widget \<Rightarrow> save_widget_image vf_widget scale env)))"

subsection \<open>Command shorthands\<close>

text \<open>Each shorthand takes the binary view the host passes and ignores it.\<close>

definition ui_save_view_image_1x :: "'bv \<Rightarrow> env \<Rightarrow> outcome" where
  "ui_save_view_image_1x bv env = save_active_view_image 1 env"

definition ui_save_view_image_2x :: "'bv \<Rightarrow> env \<Rightarrow> outcome" where
  "ui_save_view_image_2x bv env = save_active_view_image 2 env"

definition ui_save_view_image_custom :: "'bv \<Rightarrow> env \<Rightarrow> outcome" where
  "ui_save_view_image_custom bv env =
     after (AskInt ''Resolution multiplier:'' ''Screenshot Ninja'')
       (case get_int_input env of
          Some scale \<Rightarrow> save_active_view_image scale env
        | None \<Rightarrow> ([], Inr ()))"

definition ui_save_window_image_1x :: "'bv \<Rightarrow> env \<Rightarrow> outcome" where
  "ui_save_window_image_1x bv env = save_active_window_image 1 env"

definition ui_save_window_image_2x :: "'bv \<Rightarrow> env \<Rightarrow> outcome" where
  "ui_save_window_image_2x bv env = save_active_window_image 2 env"

definition ui_save_window_image_custom :: "'bv \<Rightarrow> env \<Rightarrow> outcome" where
  "ui_save_window_image_custom bv env =
     after (AskInt ''Resolution multiplier:'' ''Screenshot Ninja'')
       (case get_int_input env of
          Some scale \<Rightarrow> save_active_window_image scale env
        | None \<Rightarrow> ([], Inr ()))"

subsection \<open>Command registration\<close>

text \<open>
  \<open>PluginCommand.register(name, description, action)\<close> adds one entry to the host's
  command table. The table holds the action by name; \<open>call\<close> runs it.
\<close>

datatype action =
    Ui_save_view_image_1x
  | Ui_save_view_image_2x
  | Ui_save_view_image_custom
  | Ui_save_window_image_1x
  | Ui_save_window_image_2x
  | Ui_save_window_image_custom

fun call :: "action \<Rightarrow> 'bv \<Rightarrow> env \<Rightarrow> outcome" where
  "call Ui_save_view_image_1x = ui_save_view_image_1x"
| "call Ui_save_view_image_2x = ui_save_view_image_2x"
| "call Ui_save_view_image_custom = ui_save_view_image_custom"
| "call Ui_save_window_image_1x = ui_save_window_image_1x"
| "call Ui_save_window_image_2x = ui_save_window_image_2x"
| "call Ui_save_window_image_custom = ui_save_window_image_custom"

record plugin_command =
  cmd_name :: string
  cmd_description :: string
  cmd_action :: action

definition register :: "string \<Rightarrow> string \<Rightarrow> action \<Rightarrow> plugin_command list \<Rightarrow> plugin_command list" where
  "register name description act table =
     table @ [\<lparr>cmd_name = name, cmd_description = description, cmd_action = act\<rparr>]"

text \<open>The menu path separator of the command names is a backslash.\<close>

definition menu :: "string \<Rightarrow> string" where
  "menu item = ''Screenshot Ninja '' @ [CHR 0x5C] @ '' '' @ item"

definition load_plugin :: "plugin_command list \<Rightarrow> plugin_command list" where
  "load_plugin table =
     (let table = register (menu ''Save view image @ 1x...'')
            ''Save an image of the currently visible linear/graph view at 1x scaling''
            Ui_save_view_image_1x table;
          table = register (menu ''Save view image @ 2x...'')
            ''Save an image of the currently visible linear/graph view at 2x scaling''
            Ui_save_view_image_2x table;
          table = register (menu ''Save view image...'')
            ''Save an image of the currently visible linear/graph view at custom scaling''
            Ui_save_view_image_custom table;
          table = register (menu ''Save window image @ 1x...'')
            ''Save an image of the main window at 1x scaling''
            Ui_save_window_image_1x table;
          table = register (menu ''Save window image @ 2x...'')
            ''Save an image of the main window at 2x scaling''
            Ui_save_window_image_2x table;
          table = register (menu ''Save window image...'')
            ''Save an image of the main window at custom scaling''
            Ui_save_window_image_custom table
      in table)"

subsection \<open>The image format the toolkit writes\<close>

text \<open>
  \<open>img.save(f)\<close> names no format, and the toolkit then takes the format from the suffix
  of the file name, the text after its last dot, compared without regard to case.
\<close>

definition lower_char :: "char \<Rightarrow> char" where
  "lower_char c =
     (if (65::nat) \<le> of_char c \<and> (of_char c :: nat) \<le> 90
      then char_of ((of_char c :: nat) + 32) else c)"

definition file_suffix :: "string \<Rightarrow> string" where
  "file_suffix f =
     (if CHR ''.'' \<in> set f then rev (takeWhile (\<lambda>c. c \<noteq> CHR ''.'') (rev f)) else [])"

definition saved_format :: "string \<Rightarrow> string" where
  "saved_format f = map lower_char (file_suffix f)"

subsection \<open>Reading a trace\<close>

fun is_save :: "event \<Rightarrow> bool" where
  "is_save (PixmapSave f) = True"
| "is_save e = False"

fun is_message_box :: "event \<Rightarrow> bool" where
  "is_message_box (ShowMessageBox t m b i) = True"
| "is_message_box e = False"

fun is_print :: "event \<Rightarrow> bool" where
  "is_print (Print s) = True"
| "is_print e = False"

fun is_render :: "event \<Rightarrow> bool" where
  "is_render (Render w p r) = True"
| "is_render e = False"

fun is_ask_save :: "event \<Rightarrow> bool" where
  "is_ask_save (AskSaveFilename t e d) = True"
| "is_ask_save e = False"

text \<open>The scale factors a trace renders with, and whether each file it saves is a PNG.\<close>

fun scales :: "event list \<Rightarrow> int list" where
  "scales [] = []"
| "scales (SetDevicePixelRatio k # es) = k # scales es"
| "scales (e # es) = scales es"

fun writes_png :: "event \<Rightarrow> bool" where
  "writes_png (PixmapSave f) = (saved_format f = ''png'')"
| "writes_png e = True"

definition is_custom :: "action \<Rightarrow> bool" where
  "is_custom a = (a = Ui_save_view_image_custom \<or> a = Ui_save_window_image_custom)"

definition is_window :: "action \<Rightarrow> bool" where
  "is_window a = (a = Ui_save_window_image_1x \<or> a = Ui_save_window_image_2x
                  \<or> a = Ui_save_window_image_custom)"

section \<open>Properties\<close>




subsection \<open>Unfolding the commands\<close>

lemmas cmd_defs =
  ui_save_view_image_1x_def ui_save_view_image_2x_def ui_save_view_image_custom_def
  ui_save_window_image_1x_def ui_save_window_image_2x_def ui_save_window_image_custom_def
  save_active_view_image_def save_active_window_image_def save_widget_image_def
  after_def decode_ascii_def Let_def

lemma saved_format_png_suffix: "saved_format (x @ ''.png'') = ''png''"
  by (simp add: saved_format_def file_suffix_def lower_char_def)

subsection \<open>Locating the widget\<close>

text \<open>
  C2. Every screenshot command whose widget cannot be located should show an error
  dialog and stop before rendering or saving. The window command does so. The view
  command does not: with an active dock handler that has no view frame it ends with
  an \<open>AttributeError\<close> that nothing catches, having shown no dialog.
\<close>

theorem view_lookup_unchecked:
  "ui_save_view_image_1x ()
       \<lparr>activeWindow = None, getActiveDockHandler = Some (DockHandler None),
        get_int_input = None, get_save_filename_input = None, pixmap_save = True,
        unix_time = 1700000000\<rparr>
     = ([], Inl AttributeError)
   \<and> ui_save_window_image_1x ()
       \<lparr>activeWindow = None, getActiveDockHandler = Some (DockHandler None),
        get_int_input = None, get_save_filename_input = None, pixmap_save = True,
        unix_time = 1700000000\<rparr>
     = ([ShowMessageBox ''Error'' ''Couldn't find main window.'' OKButtonSet ErrorIcon],
        Inr ())"
  by (simp add: ui_save_view_image_1x_def save_active_view_image_def
      ui_save_window_image_1x_def save_active_window_image_def)

subsection \<open>Error dialogs\<close>

text \<open>
  C3. A command shows a message box in exactly two situations, and then it is the
  error box of that situation: the command is a window command that got as far as
  looking for the main window (a custom command only after a multiplier was entered)
  and found none; or \<open>img.save\<close> was called and returned \<open>False\<close>. Nothing else
  produces a message box.
\<close>

theorem error_dialog_conditions:
  "ShowMessageBox t m b i \<in> set (fst (call a bv env)) \<longleftrightarrow>
     (t = ''Error'' \<and> m = ''Couldn't find main window.'' \<and> is_window a
        \<and> (is_custom a \<longrightarrow> get_int_input env \<noteq> None) \<and> activeWindow env = None)
   \<or> (t = ''Error'' \<and> m = ''Failed to save screenshot.''
        \<and> list_ex is_save (fst (call a bv env)) \<and> \<not> pixmap_save env)"
  by (cases a; cases b; cases i)
     (auto simp: cmd_defs is_window_def is_custom_def
       split: option.splits sum.splits if_splits)

theorem error_dialog_conditions_witness:
  "ShowMessageBox ''Error'' ''Couldn't find main window.'' OKButtonSet ErrorIcon
     \<in> set (fst (call Ui_save_window_image_2x ()
       \<lparr>activeWindow = None, getActiveDockHandler = Some (DockHandler None),
        get_int_input = None, get_save_filename_input = None, pixmap_save = True,
        unix_time = 1700000000\<rparr>))
   \<and> ShowMessageBox ''Error'' ''Failed to save screenshot.'' OKButtonSet ErrorIcon
     \<in> set (fst (call Ui_save_window_image_2x ()
       \<lparr>activeWindow = Some \<lparr>widget_name = ''main'',
          widget_rect = \<lparr>rect_x1 = 0, rect_y1 = 0, rect_x2 = 799, rect_y2 = 599\<rparr>\<rparr>,
        getActiveDockHandler = None, get_int_input = None,
        get_save_filename_input = Some ''shot.png'', pixmap_save = False,
        unix_time = 1700000000\<rparr>))"
  using error_dialog_conditions
    [of "''Error''" "''Couldn't find main window.''" OKButtonSet ErrorIcon
        Ui_save_window_image_2x "()"
       "\<lparr>activeWindow = None, getActiveDockHandler = Some (DockHandler None),
        get_int_input = None, get_save_filename_input = None, pixmap_save = True,
        unix_time = 1700000000\<rparr>"]
    error_dialog_conditions
    [of "''Error''" "''Failed to save screenshot.''" OKButtonSet ErrorIcon
        Ui_save_window_image_2x "()"
       "\<lparr>activeWindow = Some \<lparr>widget_name = ''main'',
          widget_rect = \<lparr>rect_x1 = 0, rect_y1 = 0, rect_x2 = 799, rect_y2 = 599\<rparr>\<rparr>,
        getActiveDockHandler = None, get_int_input = None,
        get_save_filename_input = Some ''shot.png'', pixmap_save = False,
        unix_time = 1700000000\<rparr>"]
  by (simp add: cmd_defs is_window_def is_custom_def is_ascii_def)

subsection \<open>Cancelling a prompt\<close>

text \<open>
  C4. If the user cancels the multiplier prompt of a custom command, the command does
  nothing beyond having asked. If the save dialog was shown and the user cancels it,
  the command returns normally, and its trace has no save, no message box and no
  printed line.
\<close>

theorem cancel_is_silent:
  "(is_custom a \<and> get_int_input env = None \<longrightarrow>
      call a bv env = ([AskInt ''Resolution multiplier:'' ''Screenshot Ninja''], Inr ()))
   \<and> (list_ex is_ask_save (fst (call a bv env)) \<and> get_save_filename_input env = None \<longrightarrow>
        snd (call a bv env) = Inr ()
        \<and> \<not> list_ex is_save (fst (call a bv env))
        \<and> \<not> list_ex is_message_box (fst (call a bv env))
        \<and> \<not> list_ex is_print (fst (call a bv env)))"
  by (cases a)
     (auto simp: cmd_defs is_window_def is_custom_def
       split: option.splits sum.splits if_splits)

theorem cancel_is_silent_witness:
  "call Ui_save_view_image_custom ()
       \<lparr>activeWindow = None, getActiveDockHandler = Some (DockHandler None),
        get_int_input = None, get_save_filename_input = None, pixmap_save = True,
        unix_time = 1700000000\<rparr>
     = ([AskInt ''Resolution multiplier:'' ''Screenshot Ninja''], Inr ())
   \<and> list_ex is_ask_save (fst (call Ui_save_window_image_custom ()
       \<lparr>activeWindow = Some \<lparr>widget_name = ''main'',
          widget_rect = \<lparr>rect_x1 = 0, rect_y1 = 0, rect_x2 = 799, rect_y2 = 599\<rparr>\<rparr>,
        getActiveDockHandler = None, get_int_input = Some 3,
        get_save_filename_input = None, pixmap_save = True,
        unix_time = 1700000000\<rparr>))
   \<and> \<not> list_ex is_save (fst (call Ui_save_window_image_custom ()
       \<lparr>activeWindow = Some \<lparr>widget_name = ''main'',
          widget_rect = \<lparr>rect_x1 = 0, rect_y1 = 0, rect_x2 = 799, rect_y2 = 599\<rparr>\<rparr>,
        getActiveDockHandler = None, get_int_input = Some 3,
        get_save_filename_input = None, pixmap_save = True,
        unix_time = 1700000000\<rparr>))
   \<and> \<not> list_ex is_message_box (fst (call Ui_save_window_image_custom ()
       \<lparr>activeWindow = Some \<lparr>widget_name = ''main'',
          widget_rect = \<lparr>rect_x1 = 0, rect_y1 = 0, rect_x2 = 799, rect_y2 = 599\<rparr>\<rparr>,
        getActiveDockHandler = None, get_int_input = Some 3,
        get_save_filename_input = None, pixmap_save = True,
        unix_time = 1700000000\<rparr>))
   \<and> \<not> list_ex is_print (fst (call Ui_save_window_image_custom ()
       \<lparr>activeWindow = Some \<lparr>widget_name = ''main'',
          widget_rect = \<lparr>rect_x1 = 0, rect_y1 = 0, rect_x2 = 799, rect_y2 = 599\<rparr>\<rparr>,
        getActiveDockHandler = None, get_int_input = Some 3,
        get_save_filename_input = None, pixmap_save = True,
        unix_time = 1700000000\<rparr>))"
proof -
  have asked: "list_ex is_ask_save (fst (call Ui_save_window_image_custom ()
       \<lparr>activeWindow = Some \<lparr>widget_name = ''main'',
          widget_rect = \<lparr>rect_x1 = 0, rect_y1 = 0, rect_x2 = 799, rect_y2 = 599\<rparr>\<rparr>,
        getActiveDockHandler = None, get_int_input = Some 3,
        get_save_filename_input = None, pixmap_save = True,
        unix_time = 1700000000\<rparr>))"
    by (simp add: cmd_defs)
  show ?thesis
    using asked
      cancel_is_silent [of Ui_save_view_image_custom
       "\<lparr>activeWindow = None, getActiveDockHandler = Some (DockHandler None),
        get_int_input = None, get_save_filename_input = None, pixmap_save = True,
        unix_time = 1700000000\<rparr>" "()"]
      cancel_is_silent [of Ui_save_window_image_custom
       "\<lparr>activeWindow = Some \<lparr>widget_name = ''main'',
          widget_rect = \<lparr>rect_x1 = 0, rect_y1 = 0, rect_x2 = 799, rect_y2 = 599\<rparr>\<rparr>,
        getActiveDockHandler = None, get_int_input = Some 3,
        get_save_filename_input = None, pixmap_save = True,
        unix_time = 1700000000\<rparr>" "()"]
    by (simp add: is_custom_def)
qed

subsection \<open>One save, and how its outcome is reported\<close>

text \<open>
  C5. Whenever a command has shown the save dialog and the user has chosen a path that
  decodes as ASCII, \<open>img.save\<close> is called exactly once, with that path. If it
  succeeds, a line is printed to the console and no message box is shown; if it
  fails, the error box is shown and nothing is printed.
\<close>

theorem single_save_and_report:
  "list_ex is_ask_save (fst (call a bv env)) \<Longrightarrow> get_save_filename_input env = Some p
   \<Longrightarrow> is_ascii p \<Longrightarrow>
   filter is_save (fst (call a bv env)) = [PixmapSave p]
   \<and> (pixmap_save env \<longrightarrow>
        Print (''Screenshot saved to '' @ p @ '' successfully.'') \<in> set (fst (call a bv env))
        \<and> \<not> list_ex is_message_box (fst (call a bv env)))
   \<and> (\<not> pixmap_save env \<longrightarrow>
        ShowMessageBox ''Error'' ''Failed to save screenshot.'' OKButtonSet ErrorIcon
          \<in> set (fst (call a bv env))
        \<and> \<not> list_ex is_print (fst (call a bv env)))"
  by (cases a)
     (auto simp: cmd_defs split: option.splits sum.splits if_splits)

theorem single_save_and_report_witness:
  "filter is_save (fst (call Ui_save_window_image_1x ()
       \<lparr>activeWindow = Some \<lparr>widget_name = ''main'',
          widget_rect = \<lparr>rect_x1 = 0, rect_y1 = 0, rect_x2 = 799, rect_y2 = 599\<rparr>\<rparr>,
        getActiveDockHandler = None, get_int_input = None,
        get_save_filename_input = Some ''shot.png'', pixmap_save = True,
        unix_time = 1700000000\<rparr>))
     = [PixmapSave ''shot.png'']
   \<and> filter is_save (fst (call Ui_save_window_image_1x ()
       \<lparr>activeWindow = Some \<lparr>widget_name = ''main'',
          widget_rect = \<lparr>rect_x1 = 0, rect_y1 = 0, rect_x2 = 799, rect_y2 = 599\<rparr>\<rparr>,
        getActiveDockHandler = None, get_int_input = None,
        get_save_filename_input = Some ''shot.png'', pixmap_save = False,
        unix_time = 1700000000\<rparr>))
     = [PixmapSave ''shot.png'']"
proof -
  have ascii: "is_ascii ''shot.png''"
    by (simp add: is_ascii_def)
  have asked: "list_ex is_ask_save (fst (call Ui_save_window_image_1x ()
       \<lparr>activeWindow = Some \<lparr>widget_name = ''main'',
          widget_rect = \<lparr>rect_x1 = 0, rect_y1 = 0, rect_x2 = 799, rect_y2 = 599\<rparr>\<rparr>,
        getActiveDockHandler = None, get_int_input = None,
        get_save_filename_input = Some ''shot.png'', pixmap_save = True,
        unix_time = 1700000000\<rparr>))"
    by (simp add: cmd_defs is_ascii_def)
  have asked': "list_ex is_ask_save (fst (call Ui_save_window_image_1x ()
       \<lparr>activeWindow = Some \<lparr>widget_name = ''main'',
          widget_rect = \<lparr>rect_x1 = 0, rect_y1 = 0, rect_x2 = 799, rect_y2 = 599\<rparr>\<rparr>,
        getActiveDockHandler = None, get_int_input = None,
        get_save_filename_input = Some ''shot.png'', pixmap_save = False,
        unix_time = 1700000000\<rparr>))"
    by (simp add: cmd_defs is_ascii_def)
  show ?thesis
    using single_save_and_report [OF asked _ ascii] single_save_and_report [OF asked' _ ascii]
    by simp
qed

text \<open>
  A successful save at 1x of the main window: one save, and no message box at all.
\<close>

theorem success_without_message_box:
  "\<not> (length (filter is_save (fst (call Ui_save_window_image_1x ()
       \<lparr>activeWindow = Some \<lparr>widget_name = ''main'',
          widget_rect = \<lparr>rect_x1 = 0, rect_y1 = 0, rect_x2 = 799, rect_y2 = 599\<rparr>\<rparr>,
        getActiveDockHandler = None, get_int_input = None,
        get_save_filename_input = Some ''shot.png'', pixmap_save = True,
        unix_time = 1700000000\<rparr>)))
        = 1
      \<and> list_ex is_message_box (fst (call Ui_save_window_image_1x ()
       \<lparr>activeWindow = Some \<lparr>widget_name = ''main'',
          widget_rect = \<lparr>rect_x1 = 0, rect_y1 = 0, rect_x2 = 799, rect_y2 = 599\<rparr>\<rparr>,
        getActiveDockHandler = None, get_int_input = None,
        get_save_filename_input = Some ''shot.png'', pixmap_save = True,
        unix_time = 1700000000\<rparr>)))"
  by (simp add: cmd_defs is_ascii_def)

subsection \<open>The scale factor\<close>

text \<open>
  C6. A command renders with a scale factor \<open>k\<close> exactly when it renders at all and
  \<open>k\<close> is the factor of the command: 1 for the 1x commands, 2 for the 2x commands, and for
  the custom commands the integer entered at the prompt, whatever its sign. The custom
  commands check the answer for cancellation only.
\<close>

theorem scale_is_the_commands:
  "k \<in> set (scales (fst (call a bv env))) \<longleftrightarrow>
     list_ex is_render (fst (call a bv env))
     \<and> (if is_custom a then get_int_input env = Some k
         else if a = Ui_save_view_image_1x \<or> a = Ui_save_window_image_1x then k = 1
         else k = 2)"
  by (cases a)
     (auto simp: cmd_defs is_custom_def split: option.splits sum.splits if_splits)

theorem scale_is_the_commands_witness:
  "- 2 \<in> set (scales (fst (call Ui_save_window_image_custom ()
       \<lparr>activeWindow = Some \<lparr>widget_name = ''main'',
          widget_rect = \<lparr>rect_x1 = 0, rect_y1 = 0, rect_x2 = 799, rect_y2 = 599\<rparr>\<rparr>,
        getActiveDockHandler = None, get_int_input = Some (- 2),
        get_save_filename_input = None, pixmap_save = True,
        unix_time = 1700000000\<rparr>)))"
  using scale_is_the_commands [of "- 2" Ui_save_window_image_custom "()"
       "\<lparr>activeWindow = Some \<lparr>widget_name = ''main'',
          widget_rect = \<lparr>rect_x1 = 0, rect_y1 = 0, rect_x2 = 799, rect_y2 = 599\<rparr>\<rparr>,
        getActiveDockHandler = None, get_int_input = Some (- 2),
        get_save_filename_input = None, pixmap_save = True,
        unix_time = 1700000000\<rparr>"]
  by (simp add: cmd_defs is_custom_def)

text \<open>
  A custom window command answered with the multiplier 0 renders with the scale 0.
\<close>

theorem zero_scale_proceeds:
  "\<not> list_all ((<) 0) (scales (fst (call Ui_save_window_image_custom ()
       \<lparr>activeWindow = Some \<lparr>widget_name = ''main'',
          widget_rect = \<lparr>rect_x1 = 0, rect_y1 = 0, rect_x2 = 799, rect_y2 = 599\<rparr>\<rparr>,
        getActiveDockHandler = None, get_int_input = Some 0,
        get_save_filename_input = None, pixmap_save = True,
        unix_time = 1700000000\<rparr>)))"
  by (simp add: cmd_defs)

subsection \<open>The file that is written\<close>

text \<open>
  C7. When \<open>img.save\<close> was called and succeeded, it was called once, with the path the
  user chose in the save dialog. The file is a PNG exactly when the suffix of that
  path says so: the plugin proposes the extension in the dialog and a default name
  that ends in \<open>.png\<close>, but passes no format to the toolkit.
\<close>

theorem saved_at_chosen_path:
  "PixmapSave f \<in> set (fst (call a bv env)) \<Longrightarrow> pixmap_save env \<Longrightarrow>
     get_save_filename_input env = Some f
     \<and> filter is_save (fst (call a bv env)) = [PixmapSave f]
     \<and> (list_all writes_png (fst (call a bv env)) \<longleftrightarrow> saved_format f = ''png'')
     \<and> AskSaveFilename ''Save Screenshot'' ''png''
          (''binaryninja-'' @ str_int (unix_time env) @ ''.png'') \<in> set (fst (call a bv env))
     \<and> saved_format (''binaryninja-'' @ str_int (unix_time env) @ ''.png'') = ''png''"
  by (cases a)
     (auto simp: cmd_defs saved_format_png_suffix [of "''binaryninja-'' @ x" for x, simplified]
       split: option.splits sum.splits if_splits)

theorem saved_at_chosen_path_witness:
  "filter is_save (fst (call Ui_save_window_image_1x ()
       \<lparr>activeWindow = Some \<lparr>widget_name = ''main'',
          widget_rect = \<lparr>rect_x1 = 0, rect_y1 = 0, rect_x2 = 799, rect_y2 = 599\<rparr>\<rparr>,
        getActiveDockHandler = None, get_int_input = None,
        get_save_filename_input = Some ''shot.png'', pixmap_save = True,
        unix_time = 1700000000\<rparr>))
     = [PixmapSave ''shot.png'']
   \<and> list_all writes_png (fst (call Ui_save_window_image_1x ()
       \<lparr>activeWindow = Some \<lparr>widget_name = ''main'',
          widget_rect = \<lparr>rect_x1 = 0, rect_y1 = 0, rect_x2 = 799, rect_y2 = 599\<rparr>\<rparr>,
        getActiveDockHandler = None, get_int_input = None,
        get_save_filename_input = Some ''shot.png'', pixmap_save = True,
        unix_time = 1700000000\<rparr>))"
proof -
  have saved: "PixmapSave ''shot.png'' \<in> set (fst (call Ui_save_window_image_1x ()
       \<lparr>activeWindow = Some \<lparr>widget_name = ''main'',
          widget_rect = \<lparr>rect_x1 = 0, rect_y1 = 0, rect_x2 = 799, rect_y2 = 599\<rparr>\<rparr>,
        getActiveDockHandler = None, get_int_input = None,
        get_save_filename_input = Some ''shot.png'', pixmap_save = True,
        unix_time = 1700000000\<rparr>))"
    by (simp add: cmd_defs is_ascii_def)
  have png: "saved_format ''shot.png'' = ''png''"
    by (simp add: saved_format_def file_suffix_def lower_char_def)
  show ?thesis
    using saved_at_chosen_path [OF saved] png by simp
qed

text \<open>
  A successful save of the main window to a path the user chose with the suffix
  \<open>jpg\<close>: the command returns, reports success, and the file is not a PNG.
\<close>

theorem saved_as_suffix_says:
  "snd (call Ui_save_window_image_1x ()
       \<lparr>activeWindow = Some \<lparr>widget_name = ''main'',
          widget_rect = \<lparr>rect_x1 = 0, rect_y1 = 0, rect_x2 = 799, rect_y2 = 599\<rparr>\<rparr>,
        getActiveDockHandler = None, get_int_input = None,
        get_save_filename_input = Some ''shot.jpg'', pixmap_save = True,
        unix_time = 1700000000\<rparr>)
     = Inr ()
   \<and> list_ex is_print (fst (call Ui_save_window_image_1x ()
       \<lparr>activeWindow = Some \<lparr>widget_name = ''main'',
          widget_rect = \<lparr>rect_x1 = 0, rect_y1 = 0, rect_x2 = 799, rect_y2 = 599\<rparr>\<rparr>,
        getActiveDockHandler = None, get_int_input = None,
        get_save_filename_input = Some ''shot.jpg'', pixmap_save = True,
        unix_time = 1700000000\<rparr>))
   \<and> \<not> list_all writes_png (fst (call Ui_save_window_image_1x ()
       \<lparr>activeWindow = Some \<lparr>widget_name = ''main'',
          widget_rect = \<lparr>rect_x1 = 0, rect_y1 = 0, rect_x2 = 799, rect_y2 = 599\<rparr>\<rparr>,
        getActiveDockHandler = None, get_int_input = None,
        get_save_filename_input = Some ''shot.jpg'', pixmap_save = True,
        unix_time = 1700000000\<rparr>))"
  by (simp add: cmd_defs is_ascii_def saved_format_def file_suffix_def lower_char_def)

subsection \<open>Registration\<close>

text \<open>
  C8. Loading the plugin into an empty command table registers exactly six commands,
  with distinct names, in this order and with these names and descriptions: view image
  at 1x, at 2x and at a custom scale, window image at 1x, at 2x and at a custom
  scale; each runs the command its name announces.
\<close>

theorem six_commands_registered:
  "length (load_plugin []) = 6
   \<and> distinct (map cmd_name (load_plugin []))
   \<and> map cmd_name (load_plugin [])
       = [menu ''Save view image @ 1x...'', menu ''Save view image @ 2x...'',
          menu ''Save view image...'', menu ''Save window image @ 1x...'',
          menu ''Save window image @ 2x...'', menu ''Save window image...'']
   \<and> map cmd_description (load_plugin [])
       = [''Save an image of the currently visible linear/graph view at 1x scaling'',
          ''Save an image of the currently visible linear/graph view at 2x scaling'',
          ''Save an image of the currently visible linear/graph view at custom scaling'',
          ''Save an image of the main window at 1x scaling'',
          ''Save an image of the main window at 2x scaling'',
          ''Save an image of the main window at custom scaling'']
   \<and> map (\<lambda>c. call (cmd_action c) bv env) (load_plugin [])
       = [save_active_view_image 1 env, save_active_view_image 2 env,
          ui_save_view_image_custom bv env,
          save_active_window_image 1 env, save_active_window_image 2 env,
          ui_save_window_image_custom bv env]"
  by (simp add: load_plugin_def register_def menu_def Let_def
      ui_save_view_image_1x_def ui_save_view_image_2x_def
      ui_save_window_image_1x_def ui_save_window_image_2x_def)

theorem six_commands_registered_witness:
  "length (load_plugin []) = 6 \<and> distinct (map cmd_name (load_plugin []))"
  using six_commands_registered [of "()"
       "\<lparr>activeWindow = Some \<lparr>widget_name = ''main'',
          widget_rect = \<lparr>rect_x1 = 0, rect_y1 = 0, rect_x2 = 799, rect_y2 = 599\<rparr>\<rparr>,
        getActiveDockHandler = None, get_int_input = None,
        get_save_filename_input = None, pixmap_save = True,
        unix_time = 1700000000\<rparr>"]
  by blast

subsection \<open>Decoding the chosen path\<close>

text \<open>
  C9. If the path chosen in the save dialog has a byte that is not ASCII,
  \<open>save_widget_image\<close> ends with a \<open>UnicodeDecodeError\<close> that nothing catches, having
  neither saved nor shown a message box; such paths exist (the witness has one). And
  every file name \<open>img.save\<close> is called with is the ASCII decoding of the chosen path.
\<close>

theorem non_ascii_path_raises:
  "(\<not> is_ascii p \<and> get_save_filename_input env = Some p \<longrightarrow>
        snd (save_widget_image w k env) = Inl UnicodeDecodeError
        \<and> \<not> list_ex is_save (fst (save_widget_image w k env))
        \<and> \<not> list_ex is_message_box (fst (save_widget_image w k env)))
   \<and> (PixmapSave f \<in> set (fst (save_widget_image w k env)) \<longrightarrow>
        (\<exists>q. get_save_filename_input env = Some q \<and> decode_ascii q = Inr f))"
  by (auto simp: save_widget_image_def decode_ascii_def Let_def
      split: option.splits sum.splits if_splits)

theorem non_ascii_path_raises_witness:
  "\<not> is_ascii [CHR ''s'', CHR 0xE9, CHR ''.'', CHR ''p'', CHR ''n'', CHR ''g'']
   \<and> snd (save_widget_image
       \<lparr>widget_name = ''view'',
        widget_rect = \<lparr>rect_x1 = 0, rect_y1 = 0, rect_x2 = 799, rect_y2 = 599\<rparr>\<rparr> 2
       \<lparr>activeWindow = Some \<lparr>widget_name = ''main'',
          widget_rect = \<lparr>rect_x1 = 0, rect_y1 = 0, rect_x2 = 799, rect_y2 = 599\<rparr>\<rparr>,
        getActiveDockHandler = None, get_int_input = None,
        get_save_filename_input = Some [CHR ''s'', CHR 0xE9, CHR ''.'', CHR ''p'', CHR ''n'', CHR ''g''], pixmap_save = True,
        unix_time = 1700000000\<rparr>)
     = Inl UnicodeDecodeError
   \<and> \<not> list_ex is_save (fst (save_widget_image
       \<lparr>widget_name = ''view'',
        widget_rect = \<lparr>rect_x1 = 0, rect_y1 = 0, rect_x2 = 799, rect_y2 = 599\<rparr>\<rparr> 2
       \<lparr>activeWindow = Some \<lparr>widget_name = ''main'',
          widget_rect = \<lparr>rect_x1 = 0, rect_y1 = 0, rect_x2 = 799, rect_y2 = 599\<rparr>\<rparr>,
        getActiveDockHandler = None, get_int_input = None,
        get_save_filename_input = Some [CHR ''s'', CHR 0xE9, CHR ''.'', CHR ''p'', CHR ''n'', CHR ''g''], pixmap_save = True,
        unix_time = 1700000000\<rparr>))"
proof -
  have bad: "\<not> is_ascii [CHR ''s'', CHR 0xE9, CHR ''.'', CHR ''p'', CHR ''n'', CHR ''g'']"
    by (simp add: is_ascii_def)
  show ?thesis
    using bad non_ascii_path_raises
      [of "[CHR ''s'', CHR 0xE9, CHR ''.'', CHR ''p'', CHR ''n'', CHR ''g'']"
       "\<lparr>activeWindow = Some \<lparr>widget_name = ''main'',
          widget_rect = \<lparr>rect_x1 = 0, rect_y1 = 0, rect_x2 = 799, rect_y2 = 599\<rparr>\<rparr>,
        getActiveDockHandler = None, get_int_input = None,
        get_save_filename_input = Some [CHR ''s'', CHR 0xE9, CHR ''.'', CHR ''p'', CHR ''n'', CHR ''g''], pixmap_save = True,
        unix_time = 1700000000\<rparr>"
       "\<lparr>widget_name = ''view'',
        widget_rect = \<lparr>rect_x1 = 0, rect_y1 = 0, rect_x2 = 799, rect_y2 = 599\<rparr>\<rparr>" 2]
    by simp
qed

subsection \<open>Rendering comes before the dialog\<close>



end
